theory Spec2Isabelle
  imports Complex_Main "HOL-Library.Sublist" "HOL-Library.Multiset" "HOL-Library.Char_ord"
    "HOL-Library.List_Lexorder"
begin

section \<open>Sephora product analysis: the data frame and its derived columns\<close>

text \<open>
  The program is one class, \<open>SephoraAnalyzer\<close>, whose only attribute \<open>data\<close> is a pandas
  data frame with one row per product. Its methods print statistics of that frame. The
  embedding keeps the frame as a list of rows in index order (the index is the default
  range index, so a row's label is its position) and models every method as a function of
  the frame that returns the values the method prints, or the exception it raises.

  pandas and numpy are libraries the program calls; each library function used is modelled
  here by a function of the same name, following the library's documented behaviour
  (pandas 3 where versions differ).
  \<open>visualize_data\<close> only draws charts of group means and counts and \<open>main\<close> only calls
  the methods in turn; neither is modelled.
\<close>

subsection \<open>Python exceptions\<close>

text \<open>The exceptions the methods can raise. The source defines no exception class of its own.\<close>

datatype py_error = ValueError | KeyError | ZeroDivisionError

subsection \<open>float64 values\<close>

text \<open>
  A float64 is NaN, an infinity or a finite number. Finite numbers are modelled as exact
  reals: rounding to 53 bits is not modelled, so a computed figure stands for the float next
  to it. Where the outcome of a method depends on whether two computed means are equal, the
  mean is a parameter of the model instead (see \<open>category_analysis\<close>). \<open>xreal\<close> is the
  part of float64 that is linearly ordered; NaN stands outside it.
\<close>

datatype xreal = NegInf | Fin real | PosInf

datatype float64 = NaN | Val xreal

abbreviation Num :: "real \<Rightarrow> float64" where
  "Num x \<equiv> Val (Fin x)"

fun xreal_le :: "xreal \<Rightarrow> xreal \<Rightarrow> bool" where
  "xreal_le NegInf _ = True"
| "xreal_le (Fin x) NegInf = False"
| "xreal_le (Fin x) (Fin y) = (x \<le> y)"
| "xreal_le (Fin x) PosInf = True"
| "xreal_le PosInf PosInf = True"
| "xreal_le PosInf _ = False"

instantiation xreal :: linorder
begin

definition less_eq_xreal :: "xreal \<Rightarrow> xreal \<Rightarrow> bool" where
  "less_eq_xreal a b = xreal_le a b"

definition less_xreal :: "xreal \<Rightarrow> xreal \<Rightarrow> bool" where
  "less_xreal a b = (xreal_le a b \<and> \<not> xreal_le b a)"

instance
proof
  fix x y z :: xreal
  show "(x < y) = (x \<le> y \<and> \<not> y \<le> x)"
    by (simp add: less_xreal_def less_eq_xreal_def)
  show "x \<le> x"
    by (cases x) (simp_all add: less_eq_xreal_def)
  show "x \<le> y \<Longrightarrow> y \<le> z \<Longrightarrow> x \<le> z"
    by (cases x; cases y; cases z) (simp_all add: less_eq_xreal_def)
  show "x \<le> y \<Longrightarrow> y \<le> x \<Longrightarrow> x = y"
    by (cases x; cases y) (simp_all add: less_eq_xreal_def)
  show "x \<le> y \<or> y \<le> x"
    by (cases x; cases y) (auto simp add: less_eq_xreal_def)
qed

end

text \<open>Negation of a float in the ordered part, as numpy's unary minus.\<close>

fun xreal_neg :: "xreal \<Rightarrow> xreal" where
  "xreal_neg NegInf = PosInf"
| "xreal_neg (Fin x) = Fin (- x)"
| "xreal_neg PosInf = NegInf"

text \<open>
  The comparisons \<open><\<close> and \<open>>\<close> of two Python floats: false as soon as one side is NaN.
\<close>

fun fl_lt :: "float64 \<Rightarrow> float64 \<Rightarrow> bool" where
  "fl_lt (Val a) (Val b) = (a < b)"
| "fl_lt _ _ = False"

fun fl_abs :: "float64 \<Rightarrow> float64" where
  "fl_abs NaN = NaN"
| "fl_abs (Val NegInf) = Val PosInf"
| "fl_abs (Val (Fin x)) = Num \<bar>x\<bar>"
| "fl_abs (Val PosInf) = Val PosInf"

text \<open>
  The quotient of two finite floats, as numpy computes it for a float64 column: dividing by
  zero raises nothing and gives an infinity with the sign of the numerator, or NaN for
  \<open>0 / 0\<close>. (The only divisor that can be zero below is \<open>price / 10\<close> for an integer
  price, which is \<open>+0.0\<close>.)
\<close>

definition fl_div :: "real \<Rightarrow> real \<Rightarrow> float64" where
  "fl_div a b =
     (if b = 0 then (if 0 < a then Val PosInf else if a < 0 then Val NegInf else NaN)
      else Num (a / b))"

subsection \<open>Rows\<close>

text \<open>
  One row of the frame built from the dictionary \<open>products\<close>: three string columns, the
  int64 column \<open>price\<close>, the float64 column \<open>rating\<close> and the int64 column
  \<open>num_reviews\<close>. Ratings are the finite literals of the source.
\<close>

record product =
  product_name :: string
  brand :: string
  category :: string
  price :: int
  rating :: real
  num_reviews :: int

subsection \<open>\<open>create_sample_data\<close>: the six literal columns\<close>

definition product_name_col :: "string list" where
  "product_name_col =
    [''Fenty Beauty Foundation'', ''Fenty Beauty Lipgloss'', ''Fenty Beauty Highlighter'',
     ''Rare Beauty Blush'', ''Rare Beauty Concealer'', ''Charlotte Tilbury Mascara'',
     ''Charlotte Tilbury Foundation'', ''Dior Lipstick'', ''Dior Foundation'',
     ''The Ordinary Serum'', ''The Ordinary Moisturizer'', ''The Ordinary Retinol'',
     ''Drunk Elephant Moisturizer'', ''Urban Decay Eyeshadow'', ''Urban Decay Primer'',
     ''Huda Beauty Palette'', ''Huda Beauty Lipstick'', ''MAC Lipstick'',
     ''MAC Foundation'', ''MAC Powder'', ''NARS Blush'', ''NARS Concealer'',
     ''Too Faced Primer'', ''Too Faced Mascara'', ''Benefit Brow Pencil'',
     ''Tarte Concealer'', ''Tarte Foundation'', ''Anastasia Brow Gel'',
     ''Anastasia Palette'', ''La Mer Cream'', ''Tatcha Cleanser'',
     ''YSL Lipstick'', ''Clinique Moisturizer'', ''Hourglass Foundation'',
     ''Pat McGrath Lipstick'', ''Laura Mercier Powder'', ''Bobbi Brown Concealer'',
     ''Tom Ford Lipstick'', ''Estee Lauder Serum'', ''NARS Lipstick'']"

definition brand_col :: "string list" where
  "brand_col =
    [''Fenty Beauty'', ''Fenty Beauty'', ''Fenty Beauty'',
     ''Rare Beauty'', ''Rare Beauty'', ''Charlotte Tilbury'',
     ''Charlotte Tilbury'', ''Dior'', ''Dior'',
     ''The Ordinary'', ''The Ordinary'', ''The Ordinary'',
     ''Drunk Elephant'', ''Urban Decay'', ''Urban Decay'',
     ''Huda Beauty'', ''Huda Beauty'', ''MAC'',
     ''MAC'', ''MAC'', ''NARS'', ''NARS'',
     ''Too Faced'', ''Too Faced'', ''Benefit'',
     ''Tarte'', ''Tarte'', ''Anastasia'',
     ''Anastasia'', ''La Mer'', ''Tatcha'',
     ''YSL'', ''Clinique'', ''Hourglass'',
     ''Pat McGrath'', ''Laura Mercier'', ''Bobbi Brown'',
     ''Tom Ford'', ''Estee Lauder'', ''NARS'']"

definition category_col :: "string list" where
  "category_col =
    [''Face'', ''Lips'', ''Face'',
     ''Face'', ''Face'', ''Eyes'', ''Face'', ''Lips'', ''Face'',
     ''Skincare'', ''Skincare'', ''Skincare'',
     ''Skincare'', ''Eyes'', ''Face'',
     ''Eyes'', ''Lips'', ''Lips'',
     ''Face'', ''Face'', ''Face'', ''Face'',
     ''Face'', ''Eyes'', ''Eyes'',
     ''Face'', ''Face'', ''Eyes'',
     ''Eyes'', ''Skincare'', ''Skincare'',
     ''Lips'', ''Skincare'', ''Face'',
     ''Lips'', ''Face'', ''Face'',
     ''Lips'', ''Skincare'', ''Lips'']"

definition price_col :: "int list" where
  "price_col =
    [38, 20, 32, 23, 27, 29, 44, 42, 52,
     7, 9, 12, 68, 54, 35, 67, 29, 20,
     39, 32, 32, 31, 34, 26, 24,
     29, 41, 23, 49, 185, 35,
     39, 31, 49, 40, 41, 32, 57, 78, 28]"

definition rating_col :: "real list" where
  "rating_col =
    [4.5, 4.4, 4.6, 4.7, 4.5, 4.3, 4.5, 4.6, 4.4,
     4.4, 4.3, 4.5, 4.2, 4.5, 4.4, 4.8, 4.3, 4.4,
     4.5, 4.4, 4.6, 4.5, 4.3, 4.4, 4.5,
     4.4, 4.5, 4.7, 4.6, 4.1, 4.5,
     4.5, 4.3, 4.6, 4.4, 4.5, 4.5, 4.3, 4.2, 4.6]"

definition num_reviews_col :: "int list" where
  "num_reviews_col =
    [15234, 9845, 7651, 8901, 6234, 6543, 8932, 4231, 5678,
     12045, 8934, 9123, 5678, 9876, 7234, 11234, 5432, 7890,
     10234, 6543, 6789, 7456, 5432, 6789, 8765,
     9012, 7890, 10123, 8456, 3456, 7654,
     5678, 6543, 8901, 7234, 6543, 7890, 4567, 5678, 5234]"

text \<open>
  \<open>pd.DataFrame(products)\<close>: the i-th row takes the i-th entry of every column. pandas
  accepts the dictionary only when its columns have the same length; the six columns above
  have 40 entries each (\<open>columns_same_length\<close> below), so the rows are read off in step.
\<close>

fun DataFrame ::
  "string list \<Rightarrow> string list \<Rightarrow> string list \<Rightarrow> int list \<Rightarrow> real list \<Rightarrow> int list
     \<Rightarrow> product list" where
  "DataFrame (n # ns) (b # bs) (c # cs) (p # ps) (r # rs) (v # vs) =
     \<lparr>product_name = n, brand = b, category = c, price = p, rating = r, num_reviews = v\<rparr>
       # DataFrame ns bs cs ps rs vs"
| "DataFrame _ _ _ _ _ _ = []"

definition create_sample_data :: "product list" where
  "create_sample_data =
     DataFrame product_name_col brand_col category_col price_col rating_col num_reviews_col"

subsection \<open>The derived columns\<close>

text \<open>
  \<open>create_sample_data\<close> adds two columns computed row by row from \<open>price\<close> and
  \<open>rating\<close>; no method changes them afterwards, so each is a function of the row.

  \<open>df['value_score'] = df['rating'] / (df['price'] / 10)\<close>

  The quotient is exact here; as floats, two rows whose exact scores are equal can differ in
  the last bit.
\<close>

definition value_score :: "product \<Rightarrow> float64" where
  "value_score p = fl_div (rating p) (real_of_int (price p) / 10)"

text \<open>
  \<open>pd.cut(x, bins, labels)\<close> with its defaults \<open>right=True\<close>, \<open>include_lowest=False\<close>:
  \<open>bins.searchsorted(x, side='left')\<close> counts the edges below \<open>x\<close> (the bins are
  increasing); a value with no edge below it, or with every edge below it, is missing (NaN),
  here \<open>None\<close>; any other value gets the label before the first edge not below it.
\<close>

definition searchsorted_left :: "int list \<Rightarrow> int \<Rightarrow> nat" where
  "searchsorted_left bins x = length (takeWhile (\<lambda>b. b < x) bins)"

definition pd_cut :: "int list \<Rightarrow> string list \<Rightarrow> int \<Rightarrow> string option" where
  "pd_cut bins labels x =
     (let ids = searchsorted_left bins x
      in if ids = length bins \<or> ids = 0 then None else Some (labels ! (ids - 1)))"

definition price_bins :: "int list" where
  "price_bins = [0, 20, 40, 70, 200]"

definition price_labels :: "string list" where
  "price_labels = [''Budget'', ''Mid-Range'', ''Premium'', ''Luxury'']"

definition price_range :: "product \<Rightarrow> string option" where
  "price_range p = pd_cut price_bins price_labels (price p)"


section \<open>pandas and numpy operations used by the methods\<close>

subsection \<open>Reductions of a column\<close>

text \<open>
  \<open>Series.mean\<close>, \<open>median\<close>, \<open>min\<close> and \<open>max\<close> raise nothing on an empty column:
  they return NaN. \<open>Series.sum\<close> of an int64 column is an int64: it is 0 for an empty
  column and wraps around silently beyond 64 bits.
\<close>

definition int64_wrap :: "int \<Rightarrow> int" where
  "int64_wrap x = (x + 2 ^ 63) mod 2 ^ 64 - 2 ^ 63"

definition series_sum :: "int list \<Rightarrow> int" where
  "series_sum xs = int64_wrap (sum_list xs)"

definition series_mean :: "real list \<Rightarrow> float64" where
  "series_mean xs = (if xs = [] then NaN else Num (sum_list xs / real (length xs)))"

definition series_median :: "real list \<Rightarrow> float64" where
  "series_median xs =
     (let s = sort xs; n = length xs
      in if n = 0 then NaN
         else if odd n then Num (s ! (n div 2))
         else Num ((s ! (n div 2 - 1) + s ! (n div 2)) / 2))"

definition series_min :: "real list \<Rightarrow> float64" where
  "series_min xs = (case xs of [] \<Rightarrow> NaN | x # rest \<Rightarrow> Num (fold min rest x))"

definition series_max :: "real list \<Rightarrow> float64" where
  "series_max xs = (case xs of [] \<Rightarrow> NaN | x # rest \<Rightarrow> Num (fold max rest x))"

text \<open>An int64 column read as numbers, for the reductions that return floats.\<close>

definition int_col :: "(product \<Rightarrow> int) \<Rightarrow> product list \<Rightarrow> real list" where
  "int_col f data = map (\<lambda>p. real_of_int (f p)) data"

subsection \<open>\<open>argmax\<close> and \<open>idxmax\<close>\<close>

text \<open>
  numpy's \<open>argmax\<close> scans the array once and moves to a later position only for a strictly
  larger value, so it returns the first position of the maximum.
\<close>

fun argmax_loop :: "'a::linorder list \<Rightarrow> nat \<Rightarrow> 'a \<Rightarrow> nat \<Rightarrow> nat" where
  "argmax_loop [] i mp max_ind = max_ind"
| "argmax_loop (x # xs) i mp max_ind =
     (if mp < x then argmax_loop xs (Suc i) x i else argmax_loop xs (Suc i) mp max_ind)"

definition argmax :: "'a::linorder list \<Rightarrow> nat" where
  "argmax xs = (case xs of [] \<Rightarrow> 0 | x # rest \<Rightarrow> argmax_loop rest 1 x 0)"

text \<open>
  A Series is a list of (label, value) pairs in index order. A column of the frame has the
  row positions as labels.
\<close>

definition col :: "(product \<Rightarrow> 'v) \<Rightarrow> product list \<Rightarrow> (nat \<times> 'v) list" where
  "col f data = enumerate 0 (map f data)"

text \<open>
  \<open>Series.idxmax\<close> on a column without NaN (int64 columns, counts): \<open>ValueError\<close>
  ("attempt to get argmax of an empty sequence") on an empty Series, otherwise the label at
  \<open>argmax\<close>.
\<close>

definition idxmax :: "('k \<times> 'v::linorder) list \<Rightarrow> py_error + 'k" where
  "idxmax s = (if s = [] then Inl ValueError else Inr (fst (s ! argmax (map snd s))))"

text \<open>
  \<open>Series.idxmax\<close> on a float64 column (\<open>skipna=True\<close>), as in pandas 3: \<open>ValueError\<close>
  when the column is empty or every value is NaN; otherwise pandas replaces NaN by \<open>-inf\<close>
  and returns the label at \<open>argmax\<close>.
\<close>

fun fillna_neg_inf :: "float64 \<Rightarrow> xreal" where
  "fillna_neg_inf NaN = NegInf"
| "fillna_neg_inf (Val v) = v"

definition idxmax_float :: "('k \<times> float64) list \<Rightarrow> py_error + 'k" where
  "idxmax_float s =
     (if s = [] then Inl ValueError
      else if list_all (\<lambda>kv. snd kv = NaN) s then Inl ValueError
      else Inr (fst (s ! argmax (map (\<lambda>kv. fillna_neg_inf (snd kv)) s))))"

text \<open>
  \<open>self.data.loc[label]\<close>: the row with that label; \<open>KeyError\<close> for a label that is not
  in the index.
\<close>

definition loc :: "product list \<Rightarrow> nat \<Rightarrow> py_error + product" where
  "loc data label = (if label < length data then Inr (data ! label) else Inl KeyError)"

subsection \<open>\<open>unique\<close>, \<open>value_counts\<close>, \<open>mode\<close>, \<open>groupby\<close>\<close>

text \<open>
  pandas collects distinct values with a hash table, in order of first appearance.
\<close>

primrec unique_from :: "'a list \<Rightarrow> 'a list \<Rightarrow> 'a list" where
  "unique_from seen [] = []"
| "unique_from seen (x # xs) =
     (if x \<in> set seen then unique_from seen xs else x # unique_from (x # seen) xs)"

definition unique :: "'a list \<Rightarrow> 'a list" where
  "unique xs = unique_from [] xs"

text \<open>
  \<open>Series.value_counts()\<close>: the distinct values with their counts, sorted by descending
  count. The sort is taken to be stable, so values with equal counts stay in order of first
  appearance.
\<close>

definition value_counts :: "'a list \<Rightarrow> ('a \<times> int) list" where
  "value_counts xs =
     sort_key (\<lambda>kc. - snd kc) (map (\<lambda>k. (k, int (count_list xs k))) (unique xs))"

text \<open>
  \<open>Series.mode()\<close>: the most frequent values, sorted ascending; empty for an empty
  Series. \<open>mode()[0]\<close> looks up the label 0 and raises \<open>KeyError\<close> when there is none.
\<close>

definition mode :: "string list \<Rightarrow> string list" where
  "mode xs =
     (let ks = unique xs; m = fold max (map (count_list xs) ks) 0
      in sort (filter (\<lambda>k. count_list xs k = m) ks))"

definition first_label :: "'a list \<Rightarrow> py_error + 'a" where
  "first_label s = (case s of [] \<Rightarrow> Inl KeyError | x # _ \<Rightarrow> Inr x)"

text \<open>
  \<open>groupby('category')\<close> with the default \<open>sort=True\<close>: the group keys are the distinct
  categories in ascending order, each with its rows in frame order.
\<close>

definition group_keys :: "product list \<Rightarrow> string list" where
  "group_keys data = sort (unique (map category data))"

definition get_group :: "product list \<Rightarrow> string \<Rightarrow> product list" where
  "get_group data k = filter (\<lambda>p. category p = k) data"

text \<open>
  \<open>groupby('category')['rating'].mean()\<close>. pandas computes each group mean in float64
  arithmetic, so two groups whose exact means are equal or nearly equal may compare either
  way. The computed mean of a column is therefore a parameter \<open>mean\<close>: a function from the
  column to a float64. \<open>series_mean\<close> is the instance without rounding.
\<close>

definition groupby_mean_rating ::
  "(real list \<Rightarrow> float64) \<Rightarrow> product list \<Rightarrow> (string \<times> float64) list" where
  "groupby_mean_rating mean data =
     map (\<lambda>k. (k, mean (map rating (get_group data k)))) (group_keys data)"

text \<open>
  \<open>round(2)\<close>: numpy rounds \<open>x * 100\<close> to the nearest integer, halves to the even one, and
  divides by 100. NaN stays NaN. The product and the quotient are taken exactly here.
\<close>

definition rint :: "real \<Rightarrow> int" where
  "rint x =
     (let f = \<lfloor>x\<rfloor>
      in if x - of_int f < 1 / 2 then f
         else if 1 / 2 < x - of_int f then f + 1
         else if even f then f else f + 1)"

fun round2 :: "float64 \<Rightarrow> float64" where
  "round2 (Val (Fin x)) = Num (real_of_int (rint (x * 100)) / 100)"
| "round2 v = v"

subsection \<open>\<open>nlargest\<close>\<close>

text \<open>
  \<open>DataFrame.nlargest(n, column)\<close> with the default \<open>keep='first'\<close>: the first \<open>n\<close> rows
  in descending order of the column, the first occurrences winning among equal values.
  pandas negates the column and sorts it with a stable sort. Rows whose value is NaN are
  set aside first and appended after the others.
\<close>

definition nlargest :: "nat \<Rightarrow> (product \<Rightarrow> 'v::{linorder,uminus}) \<Rightarrow> product list \<Rightarrow> product list" where
  "nlargest n key data = take n (sort_key (\<lambda>p. - key p) data)"

definition nlargest_float :: "nat \<Rightarrow> (product \<Rightarrow> float64) \<Rightarrow> product list \<Rightarrow> product list" where
  "nlargest_float n key data =
     take n (sort_key (\<lambda>p. xreal_neg (fillna_neg_inf (key p)))
               (filter (\<lambda>p. key p \<noteq> NaN) data)
             @ filter (\<lambda>p. key p = NaN) data)"

subsection \<open>Pearson correlation\<close>

text \<open>
  \<open>Series.corr\<close> (Pearson, \<open>min_periods=1\<close>): NaN for an empty column; otherwise numpy's
  \<open>corrcoef\<close>, the covariance (with \<open>ddof=1\<close>) divided by both standard deviations. With
  one row, or with a constant column, a division \<open>0 / 0\<close> makes the result NaN.
\<close>

definition cov :: "real list \<Rightarrow> real list \<Rightarrow> real" where
  "cov xs ys =
     (let n = real (length xs); mx = sum_list xs / n; my = sum_list ys / n
      in sum_list (map2 (\<lambda>x y. (x - mx) * (y - my)) xs ys) / (n - 1))"

definition corr :: "real list \<Rightarrow> real list \<Rightarrow> float64" where
  "corr xs ys =
     (if length xs < 2 then NaN
      else if cov xs xs = 0 \<or> cov ys ys = 0 then NaN
      else Num (cov xs ys / sqrt (cov xs xs) / sqrt (cov ys ys)))"

section \<open>The methods of \<open>SephoraAnalyzer\<close>\<close>

text \<open>
  Each method prints its results; the model returns them as a record, or the exception
  that ends the method. Lines printed before an exception are not part of the result.
\<close>

subsection \<open>\<open>summary_statistics\<close>\<close>

record summary_report =
  total_products :: nat
  average_price :: float64
  median_price :: float64
  lowest_price :: float64
  highest_price :: float64
  average_rating :: float64
  median_rating :: float64
  lowest_rating :: float64
  highest_rating :: float64
  total_reviews :: int
  average_reviews :: float64
  most_expensive :: product
  best_value :: product

definition summary_statistics :: "product list \<Rightarrow> py_error + summary_report" where
  "summary_statistics data =
     (case idxmax (col price data) of
        Inl e \<Rightarrow> Inl e
      | Inr i \<Rightarrow>
     (case loc data i of
        Inl e \<Rightarrow> Inl e
      | Inr expensive \<Rightarrow>
     (case idxmax_float (col value_score data) of
        Inl e \<Rightarrow> Inl e
      | Inr j \<Rightarrow>
     (case loc data j of
        Inl e \<Rightarrow> Inl e
      | Inr best \<Rightarrow>
          Inr \<lparr>total_products = length data,
               average_price = series_mean (int_col price data),
               median_price = series_median (int_col price data),
               lowest_price = series_min (int_col price data),
               highest_price = series_max (int_col price data),
               average_rating = series_mean (map rating data),
               median_rating = series_median (map rating data),
               lowest_rating = series_min (map rating data),
               highest_rating = series_max (map rating data),
               total_reviews = series_sum (map num_reviews data),
               average_reviews = series_mean (int_col num_reviews data),
               most_expensive = expensive,
               best_value = best\<rparr>))))"

subsection \<open>\<open>category_analysis\<close>\<close>

record category_row =
  price_count :: nat
  price_mean :: float64
  price_min :: float64
  price_max :: float64
  rating_mean :: float64
  num_reviews_sum :: int

definition category_stats ::
  "(real list \<Rightarrow> float64) \<Rightarrow> product list \<Rightarrow> (string \<times> category_row) list" where
  "category_stats mean data =
     map (\<lambda>k. let g = get_group data k
              in (k, \<lparr>price_count = length g,
                      price_mean = round2 (mean (int_col price g)),
                      price_min = series_min (int_col price g),
                      price_max = series_max (int_col price g),
                      rating_mean = round2 (mean (map rating g)),
                      num_reviews_sum = series_sum (map num_reviews g)\<rparr>))
         (group_keys data)"

text \<open>
  \<open>Series.max\<close> of a float64 column skips NaN like \<open>idxmax\<close> does, and is NaN when
  nothing is left.
\<close>

definition series_max_float :: "float64 list \<Rightarrow> float64" where
  "series_max_float vs =
     (if list_all (\<lambda>v. v = NaN) vs then NaN
      else Val (fold max (map fillna_neg_inf (tl vs)) (fillna_neg_inf (hd vs))))"

record category_report =
  stats :: "(string \<times> category_row) list"
  most_products :: string
  most_products_count :: float64
  highest_rated :: string
  highest_rated_mean :: float64

definition category_analysis ::
  "(real list \<Rightarrow> float64) \<Rightarrow> product list \<Rightarrow> py_error + category_report" where
  "category_analysis mean data =
     (case idxmax (value_counts (map category data)) of
        Inl e \<Rightarrow> Inl e
      | Inr most \<Rightarrow>
     (case idxmax_float (groupby_mean_rating mean data) of
        Inl e \<Rightarrow> Inl e
      | Inr highest \<Rightarrow>
          Inr \<lparr>stats = category_stats mean data,
               most_products = most,
               most_products_count =
                 series_max (map (\<lambda>kc. real_of_int (snd kc))
                   (value_counts (map category data))),
               highest_rated = highest,
               highest_rated_mean =
                 series_max_float (map snd (groupby_mean_rating mean data))\<rparr>))"

subsection \<open>\<open>top_products\<close>\<close>

record top_report =
  top_rated :: "product list"
  most_reviewed :: "product list"
  top_value :: "product list"

definition top_products :: "product list \<Rightarrow> top_report" where
  "top_products data =
     \<lparr>top_rated = nlargest 5 rating data,
      most_reviewed = nlargest 5 num_reviews data,
      top_value = nlargest_float 5 value_score data\<rparr>"

subsection \<open>\<open>price_analysis\<close>\<close>

text \<open>
  \<open>value_counts().sort_index()\<close> of the categorical column \<open>price_range\<close> lists every
  category, in category order, with its count; rows without a bucket are not counted. The
  loop divides each count by \<open>len(self.data)\<close>, two Python integers, and so raises
  \<open>ZeroDivisionError\<close> on a frame without rows. The only verdict the method prints is the
  line that starts "Weak correlation", when \<open>abs(correlation) < 0.3\<close>.
\<close>

definition price_dist :: "product list \<Rightarrow> (string \<times> nat) list" where
  "price_dist data =
     map (\<lambda>l. (l, length (filter (\<lambda>p. price_range p = Some l) data))) price_labels"

record price_report =
  distribution :: "(string \<times> nat \<times> real) list"
  correlation :: float64
  verdict :: "string option"

definition correlation_verdict :: "float64 \<Rightarrow> string option" where
  "correlation_verdict c =
     (if fl_lt (fl_abs c) (Num 0.3) then Some ''Weak correlation'' else None)"

definition price_analysis :: "product list \<Rightarrow> py_error + price_report" where
  "price_analysis data =
     (if length data = 0 then Inl ZeroDivisionError
      else
        (let c = corr (int_col price data) (map rating data)
         in Inr \<lparr>distribution =
                   map (\<lambda>lc. (fst lc, snd lc,
                               real (snd lc) / real (length data) * 100))
                     (price_dist data),
                 correlation = c,
                 verdict = correlation_verdict c\<rparr>))"

subsection \<open>\<open>generate_insights\<close>\<close>

record insight_report =
  expensive_avg_rating :: float64
  affordable_avg_rating :: float64
  skincare_avg :: float64
  makeup_avg :: float64
  higher_priced :: string
  sweet_spot_count :: nat
  sweet_spot_percentage :: real
  sweet_spot_avg_rating :: float64
  high_rated_count :: nat
  high_rated_avg_price :: float64
  high_rated_category :: string

definition expensive :: "product list \<Rightarrow> product list" where
  "expensive data = filter (\<lambda>p. price p > 50) data"

definition affordable :: "product list \<Rightarrow> product list" where
  "affordable data = filter (\<lambda>p. price p \<le> 30) data"

definition skincare :: "product list \<Rightarrow> product list" where
  "skincare data = filter (\<lambda>p. category p = ''Skincare'') data"

definition makeup_categories :: "string list" where
  "makeup_categories = [''Face'', ''Eyes'', ''Lips'']"

definition makeup :: "product list \<Rightarrow> product list" where
  "makeup data = filter (\<lambda>p. List.member makeup_categories (category p)) data"

definition sweet_spot :: "product list \<Rightarrow> product list" where
  "sweet_spot data = filter (\<lambda>p. price p \<ge> 20 \<and> price p \<le> 40) data"

definition high_rated :: "product list \<Rightarrow> product list" where
  "high_rated data = filter (\<lambda>p. rating p \<ge> 4.5) data"

definition generate_insights :: "product list \<Rightarrow> py_error + insight_report" where
  "generate_insights data =
     (let skincare_avg' = series_mean (int_col price (skincare data));
          makeup_avg' = series_mean (int_col price (makeup data))
      in if length data = 0 then Inl ZeroDivisionError
         else
           (case first_label (mode (map category (high_rated data))) of
              Inl e \<Rightarrow> Inl e
            | Inr m \<Rightarrow>
                Inr \<lparr>expensive_avg_rating = series_mean (map rating (expensive data)),
                     affordable_avg_rating = series_mean (map rating (affordable data)),
                     skincare_avg = skincare_avg',
                     makeup_avg = makeup_avg',
                     higher_priced =
                       (if fl_lt makeup_avg' skincare_avg' then ''Skincare'' else ''Makeup''),
                     sweet_spot_count = length (sweet_spot data),
                     sweet_spot_percentage =
                       real (length (sweet_spot data)) / real (length data) * 100,
                     sweet_spot_avg_rating = series_mean (map rating (sweet_spot data)),
                     high_rated_count = length (high_rated data),
                     high_rated_avg_price = series_mean (int_col price (high_rated data)),
                     high_rated_category = m\<rparr>))"

section \<open>Reading the printed figures\<close>

text \<open>
  The methods print means with two decimals (\<open>:.2f\<close>). A figure \<open>d\<close> quoted to two
  decimals is taken to describe a float when the float is finite and within one unit of the
  second decimal of \<open>d\<close>.
\<close>

definition approx_2dp :: "float64 \<Rightarrow> real \<Rightarrow> bool" where
  "approx_2dp v d = (case v of Val (Fin x) \<Rightarrow> \<bar>x - d\<bar> \<le> 1 / 100 | _ \<Rightarrow> False)"

section \<open>Small frames used as examples\<close>

text \<open>A row with the given category, price and rating; the other columns do not matter.\<close>

definition row :: "string \<Rightarrow> int \<Rightarrow> real \<Rightarrow> product" where
  "row c p r = \<lparr>product_name = ''x'', brand = ''y'', category = c, price = p, rating = r,
     num_reviews = 1\<rparr>"

definition rising_frame :: "product list" where
  "rising_frame = [row ''Face'' 10 4.0, row ''Face'' 20 4.5, row ''Face'' 30 5.0]"

definition flat_frame :: "product list" where
  "flat_frame = [row ''Face'' 10 4.0, row ''Face'' 20 5.0, row ''Face'' 30 4.0]"

definition lone_low_rated :: "product list" where
  "lone_low_rated = [row ''Face'' 25 4.0]"

definition lone_high_rated :: "product list" where
  "lone_high_rated = [row ''Face'' 25 4.5]"

definition lips_then_face :: "product list" where
  "lips_then_face = [row ''Lips'' 25 4.5, row ''Face'' 30 4.5]"

section \<open>Auxiliary facts\<close>

subsection \<open>The order on floats, \<open>argmax\<close>, columns\<close>

lemma Fin_less_iff [simp]: "Fin a < Fin b \<longleftrightarrow> a < b"
  by (auto simp add: less_xreal_def less_eq_xreal_def)

lemma Fin_le_iff [simp]: "Fin a \<le> Fin b \<longleftrightarrow> a \<le> b"
  by (simp add: less_eq_xreal_def)

lemma xreal_inf_less [simp]:
  "NegInf < Fin a" "Fin a < PosInf" "NegInf < PosInf" "\<not> Fin a < NegInf"
  by (simp_all add: less_xreal_def less_eq_xreal_def)

lemma xreal_not_less_NegInf [simp]: "\<not> x < NegInf"
  by (cases x) (simp_all add: less_xreal_def less_eq_xreal_def)

lemma xreal_PosInf_not_less [simp]: "\<not> PosInf < x"
  by (cases x) (simp_all add: less_xreal_def less_eq_xreal_def)

lemma xreal_inf_le [simp]:
  "NegInf \<le> x" "\<not> Fin a \<le> NegInf" "\<not> PosInf \<le> Fin a" "\<not> PosInf \<le> NegInf"
  by (simp_all add: less_eq_xreal_def)

lemma xreal_le_PosInf [simp]: "x \<le> PosInf"
  by (cases x) (simp_all add: less_eq_xreal_def)

lemmas col_defs = product_name_col_def brand_col_def category_col_def price_col_def
  rating_col_def num_reviews_col_def

lemma columns_same_length:
  "map length [product_name_col, brand_col, category_col] = [40, 40, 40]"
  "map length [price_col, num_reviews_col] = [40, 40]"
  "length rating_col = 40"
  by (simp_all add: col_defs)

lemma length_sample: "length create_sample_data = 40"
  by (simp add: create_sample_data_def col_defs)

lemma price_sample: "map price create_sample_data = price_col"
  by (simp add: create_sample_data_def col_defs)

lemma rating_sample: "map rating create_sample_data = rating_col"
  by (simp add: create_sample_data_def col_defs)

lemma category_sample: "map category create_sample_data = category_col"
  by (simp add: create_sample_data_def col_defs)

lemma num_reviews_sample: "map num_reviews create_sample_data = num_reviews_col"
  by (simp add: create_sample_data_def col_defs)

lemma value_score_sample:
  "map value_score create_sample_data = map2 (\<lambda>r p. Num (r / (real_of_int p / 10))) rating_col price_col"
  by (simp add: create_sample_data_def col_defs value_score_def fl_div_def)


lemma argmax_loop_spec:
  assumes "length ys = i" "mi < i" "ys ! mi = mp"
    "\<forall>y\<in>set ys. y \<le> mp" "\<forall>j<mi. ys ! j < mp"
  shows "argmax_loop xs i mp mi < i + length xs
    \<and> (\<forall>y\<in>set (ys @ xs). y \<le> (ys @ xs) ! argmax_loop xs i mp mi)
    \<and> (\<forall>j<argmax_loop xs i mp mi. (ys @ xs) ! j < (ys @ xs) ! argmax_loop xs i mp mi)"
  using assms
proof (induction xs arbitrary: ys i mp mi)
  case Nil
  then show ?case by simp
next
  case (Cons x xs)
  show ?case
  proof (cases "mp < x")
    case True
    have inv: "length (ys @ [x]) = Suc i" "i < Suc i" "(ys @ [x]) ! i = x"
      "\<forall>y\<in>set (ys @ [x]). y \<le> x" "\<forall>j<i. (ys @ [x]) ! j < x"
      using Cons.prems True by (auto simp add: nth_append intro: less_imp_le order.trans dual_order.strict_trans2)
    from Cons.IH [OF inv] True show ?thesis by simp
  next
    case False
    have inv: "length (ys @ [x]) = Suc i" "mi < Suc i" "(ys @ [x]) ! mi = mp"
      "\<forall>y\<in>set (ys @ [x]). y \<le> mp" "\<forall>j<mi. (ys @ [x]) ! j < mp"
      using Cons.prems False by (auto simp add: nth_append)
    from Cons.IH [OF inv] False show ?thesis by simp
  qed
qed

lemma argmax_spec:
  assumes "xs \<noteq> []"
  shows "argmax xs < length xs" "\<forall>y\<in>set xs. y \<le> xs ! argmax xs"
    "\<forall>j<argmax xs. xs ! j < xs ! argmax xs"
proof -
  from assms obtain x rest where xs: "xs = x # rest" by (cases xs) auto
  have "argmax_loop rest 1 x 0 < 1 + length rest
    \<and> (\<forall>y\<in>set ([x] @ rest). y \<le> ([x] @ rest) ! argmax_loop rest 1 x 0)
    \<and> (\<forall>j<argmax_loop rest 1 x 0. ([x] @ rest) ! j < ([x] @ rest) ! argmax_loop rest 1 x 0)"
    by (rule argmax_loop_spec) simp_all
  then show "argmax xs < length xs" "\<forall>y\<in>set xs. y \<le> xs ! argmax xs"
    "\<forall>j<argmax xs. xs ! j < xs ! argmax xs"
    by (simp_all add: xs argmax_def)
qed

lemma col_Nil [simp]: "col f [] = []"
  by (simp add: col_def)

lemma col_eq_Nil [simp]: "col f data = [] \<longleftrightarrow> data = []"
  by (cases data) (simp_all add: col_def)

lemma map_snd_col [simp]: "map snd (col f data) = map f data"
  by (simp add: col_def)

lemma fst_col_nth: "i < length data \<Longrightarrow> fst (col f data ! i) = i"
  by (simp add: col_def nth_enumerate_eq)

lemma idxmax_col:
  "data \<noteq> [] \<Longrightarrow> idxmax (col f data) = Inr (argmax (map f data))"
  using argmax_spec(1) [of "map f data"] by (simp add: idxmax_def fst_col_nth)

lemma list_all_snd_enumerate:
  "list_all (\<lambda>kv. Q (snd kv)) (enumerate n xs) = list_all Q xs"
  by (induction xs arbitrary: n) simp_all

lemma map_snd_enumerate_comp:
  "map (\<lambda>kv. g (snd kv)) (enumerate n xs) = map g xs"
  by (induction xs arbitrary: n) simp_all

lemma list_all_snd_col:
  "list_all (\<lambda>kv. Q (snd kv)) (col f data) = list_all (\<lambda>p. Q (f p)) data"
  by (simp add: col_def list_all_snd_enumerate list.pred_map o_def)

lemma map_snd_col_comp:
  "map (\<lambda>kv. g (snd kv)) (col f data) = map (\<lambda>p. g (f p)) data"
  by (simp add: col_def map_snd_enumerate_comp o_def)

lemma idxmax_float_col:
  assumes "data \<noteq> []"
  shows "idxmax_float (col f data) =
     (if list_all (\<lambda>p. f p = NaN) data then Inl ValueError
      else Inr (argmax (map (\<lambda>p. fillna_neg_inf (f p)) data)))"
proof -
  have "argmax (map (\<lambda>p. fillna_neg_inf (f p)) data) < length data"
    using argmax_spec(1) [of "map (\<lambda>p. fillna_neg_inf (f p)) data"] assms by simp
  then show ?thesis
    using assms list_all_snd_col [of "\<lambda>v. v = NaN" f data]
    by (simp add: idxmax_float_def map_snd_col_comp fst_col_nth)
qed

lemma summary_statistics_Nil: "summary_statistics [] = Inl ValueError"
  by (simp add: summary_statistics_def idxmax_def)

lemma value_score_NaN_iff: "value_score p = NaN \<longleftrightarrow> price p = 0 \<and> rating p = 0"
  by (auto simp add: value_score_def fl_div_def)

lemma summary_statistics_nonempty:
  assumes "data \<noteq> []"
  shows "isl (summary_statistics data) \<longleftrightarrow> list_all (\<lambda>p. price p = 0 \<and> rating p = 0) data"
    and "isl (summary_statistics data) \<longleftrightarrow> summary_statistics data = Inl ValueError"
proof -
  have a: "argmax (map price data) < length data"
    using argmax_spec(1) [of "map price data"] assms by simp
  have b: "argmax (map (\<lambda>p. fillna_neg_inf (value_score p)) data) < length data"
    using argmax_spec(1) [of "map (\<lambda>p. fillna_neg_inf (value_score p)) data"] assms by simp
  have c: "list_all (\<lambda>p. value_score p = NaN) data
      \<longleftrightarrow> list_all (\<lambda>p. price p = 0 \<and> rating p = 0) data"
    by (simp add: value_score_NaN_iff)
  show "isl (summary_statistics data) \<longleftrightarrow> list_all (\<lambda>p. price p = 0 \<and> rating p = 0) data"
    using assms a b c
    by (simp add: summary_statistics_def idxmax_col idxmax_float_col loc_def)
  show "isl (summary_statistics data) \<longleftrightarrow> summary_statistics data = Inl ValueError"
    using assms a b
    by (simp add: summary_statistics_def idxmax_col idxmax_float_col loc_def)
qed

lemma top_rated_length:
  "length (nlargest n key data) = min n (length data)"
  by (simp add: nlargest_def)

lemma top_rated_sorted:
  fixes key :: "product \<Rightarrow> real"
  shows "sorted_wrt (\<lambda>p q. key q \<le> key p) (nlargest n key data)"
proof -
  have "sorted (map (\<lambda>p. - key p) (sort_key (\<lambda>p. - key p) data))"
    by (rule sorted_sort_key)
  then have "sorted_wrt (\<lambda>p q. key q \<le> key p) (sort_key (\<lambda>p. - key p) data)"
    by (simp add: sorted_wrt_map)
  then show ?thesis
    unfolding nlargest_def by (rule sorted_wrt_take)
qed

lemma top_rated_stable:
  fixes key :: "product \<Rightarrow> real"
  shows "prefix (filter (\<lambda>p. key p = k) (nlargest n key data)) (filter (\<lambda>p. key p = k) data)"
proof -
  have "prefix (take n (sort_key (\<lambda>p. - key p) data)) (sort_key (\<lambda>p. - key p) data)"
    by (rule take_is_prefix)
  then have "prefix (filter (\<lambda>p. key p = k) (nlargest n key data))
      (filter (\<lambda>p. key p = k) (sort_key (\<lambda>p. - key p) data))"
    unfolding nlargest_def by (rule filter_mono_prefix)
  moreover have "filter (\<lambda>p. - key p = - k) (sort_key (\<lambda>p. - key p) data)
      = filter (\<lambda>p. - key p = - k) data"
    by (rule sort_key_stable)
  ultimately show ?thesis by simp
qed


lemma sample_9: "create_sample_data ! 9 =
  \<lparr>product_name = ''The Ordinary Serum'', brand = ''The Ordinary'',
   category = ''Skincare'', price = 7, rating = 4.4, num_reviews = 12045\<rparr>"
  by (simp add: create_sample_data_def col_defs)

lemma sample_29: "create_sample_data ! 29 =
  \<lparr>product_name = ''La Mer Cream'', brand = ''La Mer'',
   category = ''Skincare'', price = 185, rating = 4.1, num_reviews = 3456\<rparr>"
  by (simp add: create_sample_data_def col_defs)

lemma sample_not_Nil: "create_sample_data \<noteq> []"
  using length_sample by auto

lemma idxmax_price_sample: "idxmax (col price create_sample_data) = Inr 29"
  by (simp add: idxmax_col sample_not_Nil price_sample argmax_def price_col_def)

lemma idxmax_value_sample: "idxmax_float (col value_score create_sample_data) = Inr 9"
proof -
  have nan: "\<not> list_all (\<lambda>v. v = NaN) (map value_score create_sample_data)"
    unfolding value_score_sample by (simp add: col_defs)
  have "map (\<lambda>p. fillna_neg_inf (value_score p)) create_sample_data
      = map fillna_neg_inf (map value_score create_sample_data)"
    by simp
  also have "argmax \<dots> = 9"
    unfolding value_score_sample by (simp add: col_defs argmax_def)
  finally show ?thesis
    using nan by (simp add: idxmax_float_col sample_not_Nil list.pred_map o_def)
qed

lemma mean_price_sample: "series_mean (int_col price create_sample_data) = Num (1583 / 40)"
proof -
  have "int_col price create_sample_data = map real_of_int price_col"
    by (simp add: int_col_def price_sample [symmetric])
  then show ?thesis by (simp add: series_mean_def price_col_def)
qed

lemma mean_rating_sample: "series_mean (map rating create_sample_data) = Num (891 / 200)"
  by (simp add: rating_sample series_mean_def rating_col_def)

lemma summary_statistics_sample_isr:
  "summary_statistics create_sample_data =
     Inr \<lparr>total_products = 40,
          average_price = Num (1583 / 40),
          median_price = series_median (int_col price create_sample_data),
          lowest_price = series_min (int_col price create_sample_data),
          highest_price = series_max (int_col price create_sample_data),
          average_rating = Num (891 / 200),
          median_rating = series_median (map rating create_sample_data),
          lowest_rating = series_min (map rating create_sample_data),
          highest_rating = series_max (map rating create_sample_data),
          total_reviews = series_sum (map num_reviews create_sample_data),
          average_reviews = series_mean (int_col num_reviews create_sample_data),
          most_expensive = create_sample_data ! 29,
          best_value = create_sample_data ! 9\<rparr>"
  by (simp add: summary_statistics_def idxmax_price_sample idxmax_value_sample loc_def
      length_sample mean_price_sample mean_rating_sample)

lemma value_score_serum: "value_score (create_sample_data ! 9) = Num (44 / 7)"
  by (simp add: sample_9 value_score_def fl_div_def)

lemma value_score_max_sample:
  "list_all (\<lambda>p. fillna_neg_inf (value_score p) \<le> Fin (44 / 7)) create_sample_data"
proof -
  have "list_all (\<lambda>v. fillna_neg_inf v \<le> Fin (44 / 7)) (map value_score create_sample_data)"
    unfolding value_score_sample by (simp add: col_defs)
  then show ?thesis by (simp add: list.pred_map o_def)
qed

lemma value_score_unique_sample:
  "filter (\<lambda>v. v = Num (44 / 7)) (map value_score create_sample_data) = [Num (44 / 7)]"
  unfolding value_score_sample by (simp add: col_defs)

lemma series_mean_NaN_iff: "series_mean xs = NaN \<longleftrightarrow> xs = []"
  by (simp add: series_mean_def)

lemma series_median_NaN_iff: "series_median xs = NaN \<longleftrightarrow> xs = []"
  by (simp add: series_median_def Let_def)

subsection \<open>Distinct values, counts and modes\<close>

lemma set_unique_from: "set (unique_from seen xs) = set xs - set seen"
  by (induction xs arbitrary: seen) auto

lemma set_unique [simp]: "set (unique xs) = set xs"
  by (simp add: unique_def set_unique_from)

lemma distinct_unique_from: "distinct (unique_from seen xs)"
  by (induction xs arbitrary: seen) (auto simp add: set_unique_from)

lemma distinct_unique [simp]: "distinct (unique xs)"
  by (simp add: unique_def distinct_unique_from)

lemma unique_eq_Nil_iff [simp]: "unique xs = [] \<longleftrightarrow> xs = []"
  using set_unique [of xs] by (metis set_empty)

text \<open>Values met before the first occurrence of c come before c in the list of distinct values.\<close>

lemma takeWhile_unique_from:
  "unique_from seen xs = pre @ c # post \<Longrightarrow>
     set (takeWhile (\<lambda>x. x \<noteq> c) xs) \<subseteq> set seen \<union> set pre"
proof (induction xs arbitrary: seen pre)
  case Nil
  then show ?case by simp
next
  case (Cons x xs)
  note IH = Cons.IH and prems = Cons.prems
  show ?case
  proof (cases "x \<in> set seen")
    case True
    with prems have "unique_from seen xs = pre @ c # post" by simp
    from IH [OF this] True show ?thesis by auto
  next
    case False
    with prems have eq: "x # unique_from (x # seen) xs = pre @ c # post" by simp
    show ?thesis
    proof (cases "x = c")
      case True
      then show ?thesis by simp
    next
      case ne: False
      with eq obtain pre' where pre: "pre = x # pre'"
        by (cases pre) auto
      with eq have "unique_from (x # seen) xs = pre' @ c # post" by simp
      from IH [OF this] pre show ?thesis by auto
    qed
  qed
qed

lemma takeWhile_unique:
  "unique xs = pre @ c # post \<Longrightarrow> set (takeWhile (\<lambda>x. x \<noteq> c) xs) \<subseteq> set pre"
  using takeWhile_unique_from [of "[]" xs pre c post] by (simp add: unique_def)

lemma fold_max_Max: "fold max ys (a::'a::linorder) = Max (set (a # ys))"
  by (simp only: Max.set_eq_fold)

lemma fold_max_ge: "y \<in> set ys \<Longrightarrow> y \<le> fold max ys (a::'a::linorder)"
  by (simp add: fold_max_Max)

lemma fold_max_in: "fold max ys (a::'a::linorder) \<in> set (a # ys)"
  unfolding fold_max_Max by (rule Max_in) simp_all

lemma count_list_pos: "x \<in> set xs \<Longrightarrow> 0 < count_list xs x"
  by (induction xs) auto

lemma mode_eq_Nil_iff: "mode xs = [] \<longleftrightarrow> xs = []"
proof
  assume "xs = []"
  then show "mode xs = []" by (simp add: mode_def unique_def)
next
  assume m: "mode xs = []"
  show "xs = []"
  proof (rule ccontr)
    assume "xs \<noteq> []"
    then obtain x where x: "x \<in> set xs" by (cases xs) auto
    let ?cs = "map (count_list xs) (unique xs)"
    let ?m = "fold max ?cs 0"
    have "count_list xs x \<le> ?m"
      using x by (intro fold_max_ge) simp
    with count_list_pos [OF x] have "?m \<noteq> 0" by simp
    with fold_max_in [of ?cs 0] have "?m \<in> set ?cs" by simp
    then obtain k where "k \<in> set (unique xs)" "count_list xs k = ?m" by auto
    then have "filter (\<lambda>k. count_list xs k = ?m) (unique xs) \<noteq> []"
      by (auto simp add: filter_empty_conv)
    then have "mode xs \<noteq> []"
      unfolding mode_def Let_def using set_sort [of "\<lambda>x. x" "filter (\<lambda>k. count_list xs k = ?m) (unique xs)"]
      by (metis set_empty)
    with m show False by contradiction
  qed
qed

lemma first_label_mode:
  "first_label (mode xs) = (if xs = [] then Inl KeyError else Inr (hd (mode xs)))"
  using mode_eq_Nil_iff [of xs] by (cases "mode xs") (auto simp add: first_label_def)

subsection \<open>Stable sorting and the first maximum\<close>

lemma hd_filter_split:
  assumes "filter P xs \<noteq> []"
  shows "\<exists>pre post. xs = pre @ hd (filter P xs) # post \<and> (\<forall>x\<in>set pre. \<not> P x)
    \<and> P (hd (filter P xs))"
proof -
  from assms have "\<exists>x\<in>set xs. P x" by (auto simp add: filter_empty_conv)
  then obtain ys x zs where s: "xs = ys @ x # zs" "P x" "\<forall>y\<in>set ys. \<not> P y"
    using split_list_first_prop [of xs P] by blast
  then have "filter P ys = []" by (simp add: filter_empty_conv)
  with s have "hd (filter P xs) = x" by simp
  with s show ?thesis by (intro exI [of _ ys] exI [of _ zs]) simp
qed

text \<open>The head of a stably sorted list is the first element with the least key.\<close>

lemma hd_sort_key:
  assumes "xs \<noteq> []"
  shows "hd (sort_key f xs) = hd (filter (\<lambda>x. f x = f (hd (sort_key f xs))) xs)"
    "\<forall>x\<in>set xs. f (hd (sort_key f xs)) \<le> f x"
proof -
  let ?s = "sort_key f xs"
  from assms have ne: "?s \<noteq> []" by (metis length_0_conv length_sort)
  then obtain h t where s: "?s = h # t" by (cases ?s) auto
  have "filter (\<lambda>x. f x = f h) xs = h # filter (\<lambda>x. f x = f h) t"
    using sort_key_stable [of f "f h" xs] by (simp add: s)
  then have "hd (filter (\<lambda>x. f x = f h) xs) = h" by simp
  then show "hd ?s = hd (filter (\<lambda>x. f x = f (hd ?s)) xs)" by (simp add: s)
  have "sorted (map f ?s)" by (rule sorted_sort_key)
  then have "\<forall>x\<in>set t. f h \<le> f x" by (simp add: s)
  then have "\<forall>x\<in>set ?s. f h \<le> f x" by (simp add: s)
  moreover have "hd ?s = h" by (simp add: s)
  ultimately show "\<forall>x\<in>set xs. f (hd ?s) \<le> f x" by simp
qed

text \<open>In a list sorted in descending order, \<open>argmax\<close> is position 0.\<close>

lemma argmax_descending:
  assumes "xs \<noteq> []" "\<forall>y\<in>set xs. y \<le> hd xs"
  shows "argmax xs = 0"
proof (rule ccontr)
  assume "argmax xs \<noteq> 0"
  then have "0 < argmax xs" by simp
  with argmax_spec(3) [OF assms(1)] have "xs ! 0 < xs ! argmax xs" by blast
  moreover have "xs ! argmax xs \<le> hd xs"
    using assms(2) argmax_spec(1) [OF assms(1)] by simp
  ultimately show False using assms(1) by (simp add: hd_conv_nth)
qed

subsection \<open>\<open>category_analysis\<close>\<close>

lemma group_keys_sorted: "sorted_wrt (<) (group_keys data)"
  by (simp add: group_keys_def strict_sorted_iff)

lemma set_group_keys [simp]: "set (group_keys data) = set (map category data)"
  by (simp add: group_keys_def)

lemma group_keys_eq_Nil_iff [simp]: "group_keys data = [] \<longleftrightarrow> data = []"
  using set_group_keys [of data] by (metis map_is_Nil_conv set_empty)

lemma map_fst_category_stats: "map fst (category_stats mean data) = group_keys data"
  by (simp add: category_stats_def Let_def o_def)

lemma get_group_nonempty: "k \<in> set (map category data) \<Longrightarrow> get_group data k \<noteq> []"
  by (auto simp add: get_group_def filter_empty_conv)

text \<open>The most frequent value reported by \<open>value_counts().idxmax()\<close>.\<close>

lemma idxmax_value_counts:
  assumes "xs \<noteq> []"
  shows "\<exists>m. idxmax (value_counts xs) = Inr m \<and> m \<in> set xs
    \<and> (\<forall>c\<in>set xs. count_list xs c \<le> count_list xs m
          \<and> (count_list xs c = count_list xs m \<longrightarrow> c \<notin> set (takeWhile (\<lambda>x. x \<noteq> m) xs)))"
proof -
  define cnt where "cnt = (\<lambda>k. int (count_list xs k))"
  define kvs where "kvs = map (\<lambda>k. (k, cnt k)) (unique xs)"
  define f where "f = (\<lambda>kc :: 'a \<times> int. - snd kc)"
  define s where "s = sort_key f kvs"
  define m where "m = fst (hd s)"
  define top where "top = snd (hd s)"
  have vc: "value_counts xs = s"
    by (simp add: value_counts_def s_def f_def kvs_def cnt_def)
  have kvs: "kvs \<noteq> []" using assms by (simp add: kvs_def)
  then have s: "s \<noteq> []" unfolding s_def by (metis length_0_conv length_sort)
  have least: "\<forall>x\<in>set kvs. f (hd s) \<le> f x"
    unfolding s_def by (rule hd_sort_key(2) [OF kvs])
  have hd_eq: "hd s = hd (filter (\<lambda>x. f x = f (hd s)) kvs)"
    unfolding s_def by (rule hd_sort_key(1) [OF kvs])
  have set_s: "set s = set kvs" by (simp add: s_def)
  have "\<forall>y\<in>set s. snd y \<le> snd (hd s)"
    using least by (simp add: set_s f_def)
  then have "\<forall>y\<in>set (map snd s). y \<le> hd (map snd s)"
    using s by (simp add: hd_map)
  then have "argmax (map snd s) = 0"
    using s by (intro argmax_descending) simp_all
  then have idx: "idxmax (value_counts xs) = Inr m"
    using s by (simp add: idxmax_def vc hd_conv_nth m_def)
  have filt: "filter (\<lambda>x. f x = f (hd s)) kvs = map (\<lambda>k. (k, cnt k)) (filter (\<lambda>k. cnt k = top) (unique xs))"
    by (simp add: kvs_def filter_map o_def f_def top_def)
  have "hd s \<in> set kvs" using s set_s hd_in_set [of s] by simp
  then obtain k0 where k0: "k0 \<in> set xs" "hd s = (k0, cnt k0)"
    by (auto simp add: kvs_def)
  then have "cnt k0 = top" by (simp add: top_def)
  with k0(1) have ne: "filter (\<lambda>k. cnt k = top) (unique xs) \<noteq> []"
    by (auto simp add: filter_empty_conv)
  from hd_eq filt ne have m: "m = hd (filter (\<lambda>k. cnt k = top) (unique xs))"
    by (simp add: m_def hd_map)
  from hd_filter_split [OF ne] obtain pre post where
    split: "unique xs = pre @ m # post" "\<forall>x\<in>set pre. cnt x \<noteq> top" "cnt m = top"
    unfolding m [symmetric] by blast
  have "m \<in> set (unique xs)" by (simp add: split(1))
  then have mem: "m \<in> set xs" by simp
  have tw: "set (takeWhile (\<lambda>x. x \<noteq> m) xs) \<subseteq> set pre"
    by (rule takeWhile_unique [OF split(1)])
  have "count_list xs c \<le> count_list xs m
          \<and> (count_list xs c = count_list xs m \<longrightarrow> c \<notin> set (takeWhile (\<lambda>x. x \<noteq> m) xs))"
    if c: "c \<in> set xs" for c
  proof -
    from c have "(c, cnt c) \<in> set kvs" by (simp add: kvs_def)
    with least have "f (hd s) \<le> f (c, cnt c)" by blast
    then have "cnt c \<le> top" by (simp add: f_def top_def)
    then have le: "count_list xs c \<le> count_list xs m"
      using split(3) by (simp add: cnt_def)
    have "c \<notin> set (takeWhile (\<lambda>x. x \<noteq> m) xs)" if eq: "count_list xs c = count_list xs m"
    proof
      assume "c \<in> set (takeWhile (\<lambda>x. x \<noteq> m) xs)"
      with tw have "c \<in> set pre" by blast
      with split(2) have "cnt c \<noteq> top" by blast
      with eq split(3) show False by (simp add: cnt_def)
    qed
    with le show ?thesis by blast
  qed
  with idx mem show ?thesis by blast
qed


text \<open>The category reported by \<open>groupby('category')['rating'].mean().idxmax()\<close>.\<close>

lemma fillna_le_not_fl_lt: "fillna_neg_inf b \<le> fillna_neg_inf a \<Longrightarrow> \<not> fl_lt a b"
  by (cases a; cases b) auto

lemma idxmax_float_groupby:
  assumes "idxmax_float (groupby_mean_rating mean data) = Inr h"
  shows "h \<in> set (map category data)"
    and "\<forall>c\<in>set (map category data).
          \<not> fl_lt (mean (map rating (get_group data h))) (mean (map rating (get_group data c)))
          \<and> (mean (map rating (get_group data c)) = mean (map rating (get_group data h))
               \<longrightarrow> h \<le> c)"
proof -
  define keys where "keys = group_keys data"
  define m where "m = (\<lambda>k. mean (map rating (get_group data k)))"
  define v where "v = (\<lambda>k. fillna_neg_inf (m k))"
  define a where "a = argmax (map v keys)"
  have s: "groupby_mean_rating mean data = map (\<lambda>k. (k, m k)) keys"
    by (simp add: groupby_mean_rating_def keys_def m_def)
  have vmap: "(\<lambda>kv. fillna_neg_inf (snd kv)) \<circ> (\<lambda>k. (k, m k)) = v"
    by (simp add: fun_eq_iff v_def)
  from assms have ne: "keys \<noteq> []"
    by (auto simp add: idxmax_float_def s split: if_splits)
  have keys: "set keys = set (map category data)" "sorted keys"
    by (simp_all add: keys_def) (simp add: group_keys_def)
  have a: "a < length keys" "\<forall>y\<in>set (map v keys). y \<le> map v keys ! a"
    "\<forall>j<a. map v keys ! j < map v keys ! a"
    using argmax_spec [of "map v keys"] ne by (simp_all add: a_def)
  from assms ne a(1) have h: "h = keys ! a"
    by (simp add: idxmax_float_def s vmap a_def [symmetric] split: if_splits)
  have hmem: "h \<in> set keys" using a(1) by (simp add: h)
  then show "h \<in> set (map category data)" by (simp only: keys(1))
  have "\<not> fl_lt (m h) (m c) \<and> (m c = m h \<longrightarrow> h \<le> c)" if c: "c \<in> set keys" for c
  proof -
    from c obtain j where j: "j < length keys" "keys ! j = c"
      by (auto simp add: in_set_conv_nth)
    from a(2) c have "v c \<le> map v keys ! a" by simp
    then have le: "v c \<le> v h" using a(1) by (simp add: h)
    then have 1: "\<not> fl_lt (m h) (m c)"
      unfolding v_def by (rule fillna_le_not_fl_lt)
    have "h \<le> c" if eq: "m c = m h"
    proof -
      have "\<not> j < a"
      proof
        assume "j < a"
        with a(3) have "map v keys ! j < map v keys ! a" by blast
        then have "v c < v h" using a(1) j by (simp add: h)
        with eq show False by (simp add: v_def)
      qed
      then have "a \<le> j" by simp
      with keys(2) j show ?thesis
        unfolding h by (auto intro: sorted_nth_mono)
    qed
    with 1 show ?thesis by blast
  qed
  then show "\<forall>c\<in>set (map category data).
          \<not> fl_lt (mean (map rating (get_group data h))) (mean (map rating (get_group data c)))
          \<and> (mean (map rating (get_group data c)) = mean (map rating (get_group data h))
               \<longrightarrow> h \<le> c)"
    unfolding m_def keys(1) by blast
qed

lemma category_analysis_Nil: "category_analysis mean [] = Inl ValueError"
  by (simp add: category_analysis_def value_counts_def unique_def idxmax_def)

lemma category_analysis_lips_then_face:
  "category_analysis series_mean lips_then_face =
     Inr \<lparr>stats = category_stats series_mean lips_then_face, most_products = ''Lips'',
          most_products_count = Num 1,
          highest_rated = ''Face'', highest_rated_mean = Num 4.5\<rparr>"
  by (simp add: category_analysis_def lips_then_face_def row_def value_counts_def unique_def
      idxmax_def idxmax_float_def argmax_def groupby_mean_rating_def group_keys_def get_group_def
      series_mean_def series_max_def series_max_float_def)

subsection \<open>\<open>price_analysis\<close>\<close>

lemma correlation_verdict_cases:
  "correlation_verdict c =
     (case c of Val (Fin x) \<Rightarrow> if \<bar>x\<bar> < 0.3 then Some ''Weak correlation'' else None
      | _ \<Rightarrow> None)"
proof (cases c)
  case NaN
  then show ?thesis by (simp add: correlation_verdict_def)
next
  case (Val v)
  then show ?thesis by (cases v) (simp_all add: correlation_verdict_def)
qed

lemma price_analysis_Inr:
  assumes "price_analysis data = Inr r"
  shows "data \<noteq> []"
    "correlation r = corr (int_col price data) (map rating data)"
    "verdict r = correlation_verdict (correlation r)"
    "distribution r =
       map (\<lambda>lc. (fst lc, snd lc, real (snd lc) / real (length data) * 100)) (price_dist data)"
  using assms by (auto simp add: price_analysis_def Let_def split: if_splits)

lemma sqrt_100: "sqrt 100 = 10"
  by (rule real_sqrt_unique) simp_all

lemma sqrt_quarter: "sqrt (1 / 4) = 1 / 2"
  by (rule real_sqrt_unique) (simp_all add: power2_eq_square)

lemma corr_rising:
  "corr (int_col price rising_frame) (map rating rising_frame) = Num 1"
  by (simp add: rising_frame_def corr_def cov_def int_col_def row_def sqrt_100 sqrt_quarter)

lemma corr_flat:
  "corr (int_col price flat_frame) (map rating flat_frame) = Num 0"
  by (simp add: flat_frame_def corr_def cov_def int_col_def row_def)

lemma length_example_frames: "length rising_frame = 3" "length flat_frame = 3"
  by (simp_all add: rising_frame_def flat_frame_def)

subsection \<open>\<open>generate_insights\<close>\<close>

lemma int_col_Nil_iff [simp]: "int_col f data = [] \<longleftrightarrow> data = []"
  by (simp add: int_col_def)

lemma generate_insights_cases:
  "generate_insights data =
     (if data = [] then Inl ZeroDivisionError
      else if high_rated data = [] then Inl KeyError
      else Inr \<lparr>expensive_avg_rating = series_mean (map rating (expensive data)),
                affordable_avg_rating = series_mean (map rating (affordable data)),
                skincare_avg = series_mean (int_col price (skincare data)),
                makeup_avg = series_mean (int_col price (makeup data)),
                higher_priced =
                  (if fl_lt (series_mean (int_col price (makeup data)))
                        (series_mean (int_col price (skincare data)))
                   then ''Skincare'' else ''Makeup''),
                sweet_spot_count = length (sweet_spot data),
                sweet_spot_percentage =
                  real (length (sweet_spot data)) / real (length data) * 100,
                sweet_spot_avg_rating = series_mean (map rating (sweet_spot data)),
                high_rated_count = length (high_rated data),
                high_rated_avg_price = series_mean (int_col price (high_rated data)),
                high_rated_category = hd (mode (map category (high_rated data)))\<rparr>)"
  by (simp add: generate_insights_def Let_def first_label_mode)

subsection \<open>The embedded data, evaluated\<close>

lemma subsets_sample:
  "map length [expensive create_sample_data, affordable create_sample_data,
      skincare create_sample_data, makeup create_sample_data,
      sweet_spot create_sample_data, high_rated create_sample_data] = [7, 14, 8, 32, 24, 22]"
  by code_simp

lemma mode_high_rated_sample:
  "mode (map category (high_rated create_sample_data)) = [''Face'']"
  by code_simp

lemma generate_insights_sample:
  "generate_insights create_sample_data =
     Inr \<lparr>expensive_avg_rating = Num (61 / 14),
        affordable_avg_rating = Num (156 / 35),
        skincare_avg = Num (425 / 8), makeup_avg = Num (579 / 16),
        higher_priced = ''Skincare'', sweet_spot_count = 24,
        sweet_spot_percentage = 60, sweet_spot_avg_rating = Num (67 / 15),
        high_rated_count = 22, high_rated_avg_price = Num (401 / 11),
        high_rated_category = ''Face''\<rparr>"
  by code_simp

lemma price_dist_sample:
  "price_dist create_sample_data =
     [(''Budget'', 5), (''Mid-Range'', 22), (''Premium'', 11), (''Luxury'', 2)]"
  by code_simp

lemma price_bounds_sample:
  "list_all (\<lambda>p. 7 \<le> price p \<and> price p \<le> 185) create_sample_data"
  by code_simp

lemma value_score_defined_sample:
  "list_all (\<lambda>p. value_score p = Num (rating p / (real_of_int (price p) / 10))) create_sample_data"
  by code_simp

lemma price_range_defined_sample:
  "list_all (\<lambda>p. price_range p \<in> set (map Some price_labels)) create_sample_data"
  by code_simp

lemma fold_min_price_sample: "series_min (int_col price create_sample_data) = Num 7"
  by code_simp

lemma fold_max_price_sample: "series_max (int_col price create_sample_data) = Num 185"
  by code_simp

section \<open>Summary statistics of the embedded data\<close>

text \<open>
  C1, as stated: on the embedded data \<open>summary_statistics\<close> reports a mean price of about
  38.97. It does not: the 40 prices sum to 1583, so the mean is 39.575.
\<close>

theorem average_price_not_38_97:
  "\<not> approx_2dp (average_price (projr (summary_statistics create_sample_data))) 38.97"
  by (simp add: summary_statistics_sample_isr approx_2dp_def)

text \<open>
  C1, amended. The embedded data has 40 rows. On it \<open>summary_statistics\<close> returns without
  an exception and reports the mean price 39.575 and the mean rating 4.455 (about 4.46); the
  best-value product is row 9, "The Ordinary Serum", with price 7, rating 4.4 and value
  score 44/7 (about 6.29). That score is the maximum of the column and no other row has it.
\<close>

theorem summary_statistics_sample:
  "length create_sample_data = 40
   \<and> \<not> isl (summary_statistics create_sample_data)
   \<and> average_price (projr (summary_statistics create_sample_data)) = Num 39.575
   \<and> average_rating (projr (summary_statistics create_sample_data)) = Num 4.455
   \<and> approx_2dp (average_rating (projr (summary_statistics create_sample_data))) 4.46
   \<and> best_value (projr (summary_statistics create_sample_data)) = create_sample_data ! 9
   \<and> product_name (best_value (projr (summary_statistics create_sample_data)))
        = ''The Ordinary Serum''
   \<and> price (best_value (projr (summary_statistics create_sample_data))) = 7
   \<and> rating (best_value (projr (summary_statistics create_sample_data))) = 4.4
   \<and> value_score (best_value (projr (summary_statistics create_sample_data))) = Num (44 / 7)
   \<and> approx_2dp (value_score (best_value (projr (summary_statistics create_sample_data)))) 6.29
   \<and> list_all (\<lambda>p. fillna_neg_inf (value_score p) \<le> Fin (44 / 7)) create_sample_data
   \<and> filter (\<lambda>v. v = Num (44 / 7)) (map value_score create_sample_data) = [Num (44 / 7)]"
  using value_score_max_sample value_score_unique_sample
  by (simp add: summary_statistics_sample_isr length_sample value_score_serum approx_2dp_def)
    (simp add: sample_9)

section \<open>Price buckets\<close>

text \<open>
  C2. For every product the bucket is fixed by right-inclusive intervals on the price:
  (0,20] is Budget, (20,40] Mid-Range, (40,70] Premium, (70,200] Luxury, and a price at or
  below 0 or above 200 has no bucket (the missing value of the categorical column), never
  one of the four.
\<close>

theorem price_range_intervals:
  "price_range p =
     (if 0 < price p \<and> price p \<le> 20 then Some ''Budget''
      else if 20 < price p \<and> price p \<le> 40 then Some ''Mid-Range''
      else if 40 < price p \<and> price p \<le> 70 then Some ''Premium''
      else if 70 < price p \<and> price p \<le> 200 then Some ''Luxury''
      else None)"
  by (simp add: price_range_def pd_cut_def searchsorted_left_def price_bins_def
      price_labels_def)

text \<open>The boundary prices 20, 40 and 70 fall in the lower bucket; 0 and 201 in none.\<close>

theorem price_range_boundaries:
  "price_range \<lparr>product_name = ''a'', brand = ''b'', category = ''Face'', price = 20,
       rating = 4.5, num_reviews = 1\<rparr> = Some ''Budget''
   \<and> price_range \<lparr>product_name = ''a'', brand = ''b'', category = ''Face'', price = 40,
       rating = 4.5, num_reviews = 1\<rparr> = Some ''Mid-Range''
   \<and> price_range \<lparr>product_name = ''a'', brand = ''b'', category = ''Face'', price = 70,
       rating = 4.5, num_reviews = 1\<rparr> = Some ''Premium''
   \<and> price_range \<lparr>product_name = ''a'', brand = ''b'', category = ''Face'', price = 200,
       rating = 4.5, num_reviews = 1\<rparr> = Some ''Luxury''
   \<and> price_range \<lparr>product_name = ''a'', brand = ''b'', category = ''Face'', price = 0,
       rating = 4.5, num_reviews = 1\<rparr> = None
   \<and> price_range \<lparr>product_name = ''a'', brand = ''b'', category = ''Face'', price = 201,
       rating = 4.5, num_reviews = 1\<rparr> = None"
  by (simp add: price_range_intervals)

section \<open>Order of the categories\<close>

text \<open>
  C3, as stated: the categories are listed in order of first appearance, and ties for the
  highest mean rating go to the category met first. In the frame below "Lips" appears
  before "Face" and each has the single rating 4.5, so both means are 4.5 (with or without
  rounding); the statistics list "Face" first and "Face" is reported as the highest rated.
\<close>

theorem category_analysis_alphabetical:
  "unique (map category lips_then_face) = [''Lips'', ''Face'']
   \<and> map fst (stats (projr (category_analysis series_mean lips_then_face))) = [''Face'', ''Lips'']
   \<and> map rating (get_group lips_then_face ''Lips'') = [4.5]
   \<and> map rating (get_group lips_then_face ''Face'') = [4.5]
   \<and> series_mean [4.5] = Num 4.5
   \<and> highest_rated (projr (category_analysis series_mean lips_then_face)) = ''Face''"
  by (simp add: category_analysis_lips_then_face map_fst_category_stats)
    (simp add: lips_then_face_def row_def unique_def group_keys_def get_group_def series_mean_def)

text \<open>
  C3, amended. Whatever float64 value \<open>mean\<close> computes for a column, \<open>category_analysis\<close>
  lists the distinct categories in strictly ascending (alphabetical) order of their names.
  The category with the most products has the largest count, and no category with the same
  count appears in the frame before its first row. No category has a computed mean rating
  above that of the highest rated category, and among the categories whose computed mean
  equals its own it is the first in alphabetical order.
\<close>

theorem category_analysis_order:
  assumes "category_analysis mean data = Inr r"
  shows "sorted_wrt (<) (map fst (stats r))
    \<and> set (map fst (stats r)) = set (map category data)
    \<and> most_products r \<in> set (map category data)
    \<and> (\<forall>c\<in>set (map category data).
          count_list (map category data) c \<le> count_list (map category data) (most_products r)
          \<and> (count_list (map category data) c
                = count_list (map category data) (most_products r)
              \<longrightarrow> c \<notin> set (takeWhile (\<lambda>x. x \<noteq> most_products r) (map category data))))
    \<and> highest_rated r \<in> set (map category data)
    \<and> (\<forall>c\<in>set (map category data).
          \<not> fl_lt (mean (map rating (get_group data (highest_rated r))))
               (mean (map rating (get_group data c)))
          \<and> (mean (map rating (get_group data c))
                = mean (map rating (get_group data (highest_rated r)))
              \<longrightarrow> highest_rated r \<le> c))"
proof -
  have ne: "data \<noteq> []"
    using assms category_analysis_Nil [of mean] by auto
  then have cats: "map category data \<noteq> []" by simp
  from idxmax_value_counts [OF cats] obtain m where
    m: "idxmax (value_counts (map category data)) = Inr m" "m \<in> set (map category data)"
    "\<forall>c\<in>set (map category data).
        count_list (map category data) c \<le> count_list (map category data) m
        \<and> (count_list (map category data) c = count_list (map category data) m
            \<longrightarrow> c \<notin> set (takeWhile (\<lambda>x. x \<noteq> m) (map category data)))"
    by blast
  from assms m(1) obtain h where
    h: "idxmax_float (groupby_mean_rating mean data) = Inr h"
    by (auto simp add: category_analysis_def split: sum.splits)
  from assms m(1) h have r: "stats r = category_stats mean data" "most_products r = m"
    "highest_rated r = h"
    by (auto simp add: category_analysis_def)
  have "sorted_wrt (<) (map fst (stats r))"
    by (simp only: r map_fst_category_stats group_keys_sorted)
  moreover have "set (map fst (stats r)) = set (map category data)"
    by (simp only: r map_fst_category_stats set_group_keys)
  ultimately show ?thesis
    using m(2,3) idxmax_float_groupby [OF h] unfolding r by blast
qed

theorem category_analysis_order_witness:
  "category_analysis series_mean lips_then_face
     = Inr (projr (category_analysis series_mean lips_then_face))
   \<and> map fst (stats (projr (category_analysis series_mean lips_then_face))) = [''Face'', ''Lips'']
   \<and> sorted_wrt (<) (map fst (stats (projr (category_analysis series_mean lips_then_face))))
   \<and> most_products (projr (category_analysis series_mean lips_then_face)) = ''Lips''
   \<and> highest_rated (projr (category_analysis series_mean lips_then_face)) = ''Face''"
proof -
  have r: "category_analysis series_mean lips_then_face
      = Inr (projr (category_analysis series_mean lips_then_face))"
    by (simp add: category_analysis_lips_then_face)
  have k: "map fst (stats (projr (category_analysis series_mean lips_then_face)))
      = [''Face'', ''Lips'']"
    by (simp add: category_analysis_lips_then_face map_fst_category_stats)
      (simp add: lips_then_face_def row_def unique_def group_keys_def)
  from category_analysis_order [OF r]
  have "sorted_wrt (<) (map fst (stats (projr (category_analysis series_mean lips_then_face))))"
    by blast
  with r k show ?thesis
    by (simp add: category_analysis_lips_then_face)
qed

section \<open>The verdict on the correlation\<close>

text \<open>
  C4, as stated: every correlation gets exactly one of the verdicts weak, moderate and
  strong. On the frame below price and rating rise together, the correlation is 1, and
  \<open>price_analysis\<close> prints no verdict at all.
\<close>

theorem strong_correlation_no_verdict:
  "\<not> isl (price_analysis rising_frame)
   \<and> correlation (projr (price_analysis rising_frame)) = Num 1
   \<and> verdict (projr (price_analysis rising_frame)) = None"
  by (simp add: price_analysis_def Let_def corr_rising correlation_verdict_def
      length_example_frames)

text \<open>
  C4, amended. \<open>price_analysis\<close> has one verdict only: it prints the weak-correlation line
  exactly when the correlation is a number of absolute value below 0.3, and prints no verdict
  otherwise (for a larger correlation and for NaN).
\<close>

theorem price_analysis_verdict:
  assumes "price_analysis data = Inr r"
  shows "(verdict r = Some ''Weak correlation''
            \<longleftrightarrow> (\<exists>x. correlation r = Num x \<and> \<bar>x\<bar> < 0.3))
       \<and> (verdict r = None \<longleftrightarrow> \<not> (\<exists>x. correlation r = Num x \<and> \<bar>x\<bar> < 0.3))
       \<and> (verdict r = Some ''Weak correlation'' \<or> verdict r = None)"
proof -
  have v: "verdict r = correlation_verdict (correlation r)"
    using assms by (rule price_analysis_Inr(3))
  show ?thesis
    unfolding v correlation_verdict_cases
    by (auto split: float64.splits xreal.splits)
qed

theorem price_analysis_verdict_witness:
  "price_analysis flat_frame = Inr (projr (price_analysis flat_frame))
   \<and> correlation (projr (price_analysis flat_frame)) = Num 0
   \<and> verdict (projr (price_analysis flat_frame)) = Some ''Weak correlation''"
proof -
  have r: "price_analysis flat_frame = Inr (projr (price_analysis flat_frame))"
    by (simp add: price_analysis_def Let_def length_example_frames)
  have c: "correlation (projr (price_analysis flat_frame)) = Num 0"
    by (simp add: price_analysis_def Let_def corr_flat length_example_frames)
  from price_analysis_verdict [OF r] c
  have "verdict (projr (price_analysis flat_frame)) = Some ''Weak correlation''"
    by simp
  with r c show ?thesis by simp
qed

section \<open>Insights over empty subsets\<close>

text \<open>
  C5, as stated: every subset computation of \<open>generate_insights\<close> reports "no data" for an
  empty subset and no error reaches the caller. With no product rated 4.5 or more the
  method ends with \<open>KeyError\<close> (raised by \<open>mode()[0]\<close>), with no product at all it ends with
  \<open>ZeroDivisionError\<close>, and with no product above 50 dollars the reported mean is NaN.
\<close>

theorem generate_insights_raises:
  "high_rated lone_low_rated = []
   \<and> generate_insights lone_low_rated = Inl KeyError
   \<and> generate_insights [] = Inl ZeroDivisionError
   \<and> expensive lone_high_rated = []
   \<and> expensive_avg_rating (projr (generate_insights lone_high_rated)) = NaN"
  by (simp add: generate_insights_cases lone_low_rated_def lone_high_rated_def row_def
      high_rated_def expensive_def series_mean_def)

text \<open>
  C5, amended. \<open>generate_insights\<close> has no "no data" result. It ends with
  \<open>ZeroDivisionError\<close> exactly when the frame has no rows, and with \<open>KeyError\<close> exactly
  when the frame has rows but none rated 4.5 or more. Otherwise it returns, and the mean over
  each subset (price above 50, price at most 30, Skincare, Face/Eyes/Lips, price from 20 to
  40) is NaN exactly when that subset is empty; an empty 20-to-40 subset has count 0 and
  percentage 0.
\<close>

theorem generate_insights_empty_subsets:
  "(generate_insights data = Inl ZeroDivisionError \<longleftrightarrow> data = [])
   \<and> (generate_insights data = Inl KeyError \<longleftrightarrow> data \<noteq> [] \<and> high_rated data = [])
   \<and> (isl (generate_insights data) \<longleftrightarrow> data = [] \<or> high_rated data = [])
   \<and> (generate_insights data = Inr r \<longrightarrow>
        (expensive_avg_rating r = NaN \<longleftrightarrow> expensive data = [])
      \<and> (affordable_avg_rating r = NaN \<longleftrightarrow> affordable data = [])
      \<and> (skincare_avg r = NaN \<longleftrightarrow> skincare data = [])
      \<and> (makeup_avg r = NaN \<longleftrightarrow> makeup data = [])
      \<and> (sweet_spot_avg_rating r = NaN \<longleftrightarrow> sweet_spot data = [])
      \<and> (sweet_spot data = [] \<longrightarrow> sweet_spot_count r = 0 \<and> sweet_spot_percentage r = 0)
      \<and> high_rated data \<noteq> [] \<and> high_rated_avg_price r \<noteq> NaN)"
  unfolding generate_insights_cases
  by (auto simp add: series_mean_NaN_iff)

theorem generate_insights_empty_subsets_witness:
  "generate_insights lone_high_rated = Inr (projr (generate_insights lone_high_rated))
   \<and> expensive lone_high_rated = []
   \<and> expensive_avg_rating (projr (generate_insights lone_high_rated)) = NaN
   \<and> skincare lone_high_rated = []
   \<and> skincare_avg (projr (generate_insights lone_high_rated)) = NaN
   \<and> sweet_spot lone_high_rated \<noteq> []
   \<and> sweet_spot_avg_rating (projr (generate_insights lone_high_rated)) \<noteq> NaN"
proof -
  have r: "generate_insights lone_high_rated = Inr (projr (generate_insights lone_high_rated))"
    by (simp add: generate_insights_cases lone_high_rated_def row_def high_rated_def)
  have e: "expensive lone_high_rated = []" "skincare lone_high_rated = []"
    "sweet_spot lone_high_rated \<noteq> []"
    by (simp_all add: lone_high_rated_def row_def expensive_def skincare_def sweet_spot_def)
  from generate_insights_empty_subsets [of lone_high_rated "projr (generate_insights lone_high_rated)"]
    r e
  show ?thesis by simp
qed

section \<open>A frame without rows\<close>

text \<open>
  C6, as stated: \<open>summary_statistics\<close> on zero rows fails with an \<open>EmptyCatalogError\<close>,
  and every aggregate over zero rows raises instead of returning an undefined mean or
  median. The source has no such exception. On zero rows the means and medians of
  \<open>summary_statistics\<close> are NaN, returned as values, and the exception that ends the method
  is the \<open>ValueError\<close> of \<open>idxmax\<close>.
\<close>

theorem summary_statistics_no_rows:
  "summary_statistics [] = Inl ValueError
   \<and> series_mean (int_col price []) = NaN
   \<and> series_median (int_col price []) = NaN
   \<and> series_mean (map rating []) = NaN
   \<and> series_median (map rating []) = NaN"
  by (simp add: summary_statistics_Nil series_mean_def series_median_def int_col_def)

text \<open>
  C6, amended. \<open>summary_statistics\<close> fails when the frame has no rows, and otherwise only
  when every row has price 0 and rating 0 (then every value score is NaN); in both cases the
  exception is the \<open>ValueError\<close> of \<open>idxmax\<close>, and on every other frame the method returns.
  The mean and the median of a column are NaN exactly when the column is empty, and raise
  nothing.
\<close>

theorem summary_statistics_fails_iff:
  "(isl (summary_statistics data)
      \<longleftrightarrow> data = [] \<or> list_all (\<lambda>p. price p = 0 \<and> rating p = 0) data)
   \<and> (isl (summary_statistics data) \<longleftrightarrow> summary_statistics data = Inl ValueError)
   \<and> (series_mean xs = NaN \<longleftrightarrow> xs = [])
   \<and> (series_median xs = NaN \<longleftrightarrow> xs = [])"
proof (cases "data = []")
  case True
  then show ?thesis
    by (simp add: summary_statistics_Nil series_mean_NaN_iff series_median_NaN_iff)
next
  case False
  from summary_statistics_nonempty [OF False] False show ?thesis
    by (simp add: series_mean_NaN_iff series_median_NaN_iff)
qed

text \<open>
  Two frames of one row: with price 0 and rating 0 the method fails as on the empty
  frame, with price 25 and rating 4.5 it returns.
\<close>

theorem summary_statistics_fails_iff_witness:
  "summary_statistics [row ''Face'' 0 0] = Inl ValueError
   \<and> isl (summary_statistics [row ''Face'' 0 0])
   \<and> \<not> isl (summary_statistics lone_high_rated)
   \<and> best_value (projr (summary_statistics lone_high_rated)) = row ''Face'' 25 4.5"
proof -
  have z: "list_all (\<lambda>p. price p = 0 \<and> rating p = 0) [row ''Face'' 0 0]"
    "\<not> list_all (\<lambda>p. price p = 0 \<and> rating p = 0) lone_high_rated"
    "lone_high_rated \<noteq> []"
    by (simp_all add: row_def lone_high_rated_def)
  have b: "best_value (projr (summary_statistics lone_high_rated)) = row ''Face'' 25 4.5"
    by (simp add: summary_statistics_def idxmax_col idxmax_float_col argmax_def loc_def
        lone_high_rated_def row_def value_score_def fl_div_def)
  from summary_statistics_fails_iff [of "[row ''Face'' 0 0]"] z(1)
  have f: "isl (summary_statistics [row ''Face'' 0 0])"
    by blast
  with summary_statistics_fails_iff [of "[row ''Face'' 0 0]"]
  have e: "summary_statistics [row ''Face'' 0 0] = Inl ValueError"
    by blast
  from summary_statistics_fails_iff [of lone_high_rated] z(2,3)
  have "\<not> isl (summary_statistics lone_high_rated)"
    by blast
  with e f b show ?thesis by blast
qed

section \<open>The value score\<close>

text \<open>
  C7, as stated: a price of 0 yields an undefined sentinel. It does not: for a product
  with price 0 and a positive rating the value score is \<open>+inf\<close>, which is not NaN and is
  ordered above every finite score, so \<open>summary_statistics\<close> reports that product as the
  best value.
\<close>

theorem value_score_zero_price:
  "value_score \<lparr>product_name = ''Free Sample'', brand = ''The Ordinary'',
       category = ''Skincare'', price = 0, rating = 4.0, num_reviews = 10\<rparr> = Val PosInf
   \<and> Val PosInf \<noteq> NaN
   \<and> best_value (projr (summary_statistics
        [\<lparr>product_name = ''The Ordinary Serum'', brand = ''The Ordinary'',
           category = ''Skincare'', price = 7, rating = 4.4, num_reviews = 12045\<rparr>,
         \<lparr>product_name = ''Free Sample'', brand = ''The Ordinary'',
           category = ''Skincare'', price = 0, rating = 4.0, num_reviews = 10\<rparr>]))
       = \<lparr>product_name = ''Free Sample'', brand = ''The Ordinary'',
           category = ''Skincare'', price = 0, rating = 4.0, num_reviews = 10\<rparr>"
  by (simp add: value_score_def fl_div_def summary_statistics_def idxmax_col idxmax_float_col
      argmax_def loc_def)

text \<open>
  C7, amended. For every product with a price other than 0 the value score is
  \<open>rating / (price / 10)\<close>. Nothing guards the division: a price of 0 raises nothing and
  gives \<open>+inf\<close> for a positive rating, \<open>-inf\<close> for a negative one and NaN for the
  rating 0.
\<close>

theorem value_score_quotient:
  "value_score p =
     (if price p \<noteq> 0 then Num (rating p / (real_of_int (price p) / 10))
      else if 0 < rating p then Val PosInf
      else if rating p < 0 then Val NegInf
      else NaN)"
  by (simp add: value_score_def fl_div_def)

section \<open>The five highest rated products\<close>

text \<open>
  C8. The top-5-by-rating list of \<open>top_products\<close> has \<open>min 5 (length data)\<close> rows, its
  ratings never increase, and for every rating the rows of the list with that rating are
  the first rows of the frame with that rating, in frame order. The list is the start of a
  rearrangement of the whole frame in descending order of rating.
\<close>

theorem top_rated_descending_stable:
  "length (top_rated (top_products data)) = min 5 (length data)
   \<and> sorted_wrt (\<lambda>p q. rating q \<le> rating p) (top_rated (top_products data))
   \<and> (\<forall>k. prefix (filter (\<lambda>p. rating p = k) (top_rated (top_products data)))
          (filter (\<lambda>p. rating p = k) data))
   \<and> (\<exists>rest. mset (top_rated (top_products data) @ rest) = mset data
          \<and> sorted_wrt (\<lambda>p q. rating q \<le> rating p) (top_rated (top_products data) @ rest))"
proof -
  let ?s = "sort_key (\<lambda>p. - rating p) data"
  have "sorted (map (\<lambda>p. - rating p) ?s)"
    by (rule sorted_sort_key)
  then have s: "sorted_wrt (\<lambda>p q. rating q \<le> rating p) ?s"
    by (simp add: sorted_wrt_map)
  have "mset (take 5 ?s @ drop 5 ?s) = mset data"
    by simp
  with s have "\<exists>rest. mset (nlargest 5 rating data @ rest) = mset data
      \<and> sorted_wrt (\<lambda>p q. rating q \<le> rating p) (nlargest 5 rating data @ rest)"
    unfolding nlargest_def by (metis append_take_drop_id)
  then show ?thesis
    using top_rated_length [of 5 rating data] top_rated_sorted [of rating 5 data]
      top_rated_stable [of rating _ 5 data]
    by (simp add: top_products_def)
qed

text \<open>On the embedded data the five rows are these.\<close>

theorem top_rated_sample:
  "map product_name (top_rated (top_products create_sample_data)) =
     [''Huda Beauty Palette'', ''Rare Beauty Blush'', ''Anastasia Brow Gel'',
      ''Fenty Beauty Highlighter'', ''Dior Lipstick'']
   \<and> map rating (top_rated (top_products create_sample_data)) = [4.8, 4.7, 4.7, 4.6, 4.6]
   \<and> length (top_rated (top_products create_sample_data)) = min 5 (length create_sample_data)"
proof -
  have names: "map product_name (nlargest 5 rating create_sample_data) =
     [''Huda Beauty Palette'', ''Rare Beauty Blush'', ''Anastasia Brow Gel'',
      ''Fenty Beauty Highlighter'', ''Dior Lipstick'']"
    by code_simp
  have ratings: "map rating (nlargest 5 rating create_sample_data) = [4.8, 4.7, 4.7, 4.6, 4.6]"
    by code_simp
  from top_rated_descending_stable [of create_sample_data]
  have "length (top_rated (top_products create_sample_data)) = min 5 (length create_sample_data)"
    by blast
  with names ratings show ?thesis
    by (simp add: top_products_def)
qed

section \<open>Prices of the embedded data\<close>

text \<open>
  C9. Every price of the embedded data lies between 7 and 185, both attained. So every
  value score is the finite quotient \<open>rating / (price / 10)\<close>, every row has one of the four
  price buckets, and the percentages that \<open>price_analysis\<close> reports for the buckets (12.5,
  55, 27.5 and 5) add up to 100.
\<close>

theorem sample_prices_bucketed:
  "list_all (\<lambda>p. 7 \<le> price p \<and> price p \<le> 185) create_sample_data
   \<and> series_min (int_col price create_sample_data) = Num 7
   \<and> series_max (int_col price create_sample_data) = Num 185
   \<and> list_all (\<lambda>p. value_score p = Num (rating p / (real_of_int (price p) / 10)))
        create_sample_data
   \<and> list_all (\<lambda>p. price_range p \<in> set (map Some price_labels)) create_sample_data
   \<and> \<not> isl (price_analysis create_sample_data)
   \<and> distribution (projr (price_analysis create_sample_data)) =
        [(''Budget'', 5, 12.5), (''Mid-Range'', 22, 55), (''Premium'', 11, 27.5),
         (''Luxury'', 2, 5)]
   \<and> sum_list (map (\<lambda>e. snd (snd e)) (distribution (projr (price_analysis create_sample_data))))
        = 100"
proof -
  have d: "distribution (projr (price_analysis create_sample_data)) =
        [(''Budget'', 5, 12.5), (''Mid-Range'', 22, 55), (''Premium'', 11, 27.5),
         (''Luxury'', 2, 5)]"
    by (simp add: price_analysis_def Let_def length_sample price_dist_sample)
  have "\<not> isl (price_analysis create_sample_data)"
    by (simp add: price_analysis_def Let_def length_sample)
  with d show ?thesis
    using price_bounds_sample fold_min_price_sample fold_max_price_sample
      value_score_defined_sample price_range_defined_sample
    by simp
qed

section \<open>Insights on the embedded data\<close>

text \<open>
  C10. On the embedded data none of the subsets that \<open>generate_insights\<close> filters is empty
  (7 rows above 50 dollars, 14 at most 30, 8 Skincare, 32 Face/Eyes/Lips, 24 from 20 to 40,
  22 rated 4.5 or more), the modes of the high-rated categories are not empty, and the method
  returns with every mean a finite number.
\<close>

theorem sample_insights_defined:
  "expensive create_sample_data \<noteq> []
   \<and> affordable create_sample_data \<noteq> []
   \<and> skincare create_sample_data \<noteq> []
   \<and> makeup create_sample_data \<noteq> []
   \<and> sweet_spot create_sample_data \<noteq> []
   \<and> high_rated create_sample_data \<noteq> []
   \<and> mode (map category (high_rated create_sample_data)) = [''Face'']
   \<and> generate_insights create_sample_data =
       Inr \<lparr>expensive_avg_rating = Num (61 / 14),
          affordable_avg_rating = Num (156 / 35),
          skincare_avg = Num (425 / 8), makeup_avg = Num (579 / 16),
          higher_priced = ''Skincare'', sweet_spot_count = 24,
          sweet_spot_percentage = 60, sweet_spot_avg_rating = Num (67 / 15),
          high_rated_count = 22, high_rated_avg_price = Num (401 / 11),
          high_rated_category = ''Face''\<rparr>"
  using subsets_sample mode_high_rated_sample generate_insights_sample
  by auto

end
